theory Spec2Isabelle
  imports Complex_Main "HOL-Library.Char_ord" "HOL-Library.List_Lexorder"
begin

section \<open>Academic performance analytics: the pipeline of \<open>main.py\<close>\<close>

text \<open>
  The class \<open>AcademicPerformanceAnalyzer\<close> of \<open>src/main.py\<close> keeps two references to
  pandas data frames (\<open>raw_data\<close>, \<open>cleaned_data\<close>) and a dictionary \<open>results\<close>. Its methods
  \<open>clean_data\<close>, \<open>transform_data\<close> and \<open>analyze_data\<close> are embedded below.

  Conventions of the embedding:
  \<^item> a float is the rational number it denotes; NaN, which pandas uses for a missing cell,
    is \<open>None\<close>;
  \<^item> the means that pandas computes in float64 arithmetic are parameters of the model
    (\<open>float_lib\<close>): the result of a float64 summation and division is not the exact mean;
  \<^item> a column is either an object (text) column or a numeric column;
  \<^item> a data frame is its row count and the ordered list of its named columns;
  \<^item> data frames are objects: the analyzer stores references into a heap;
  \<^item> an exception is a value \<open>Inl e\<close>; a method that prints a message and executes
    \<open>return None\<close> yields \<open>Inr None\<close>;
  \<^item> printing and the writing of CSV, image and report files are not modelled (the write in
    \<open>clean_data\<close> sits in a \<open>try\<close> that swallows every exception).
\<close>

subsection \<open>Data model\<close>

datatype error = KeyError string | TypeError | AttributeError

datatype column = TextCol "string option list" | NumCol "rat option list"

record dataframe =
  nrows :: nat
  cols :: "(string \<times> column) list"

datatype cell = S string | N rat

text \<open>\<open>col in df.columns\<close>\<close>

definition has_col :: "dataframe \<Rightarrow> string \<Rightarrow> bool" where
  "has_col df c = (c \<in> set (map fst (cols df)))"

text \<open>\<open>df[col]\<close> (a \<open>KeyError\<close> where the result is \<open>None\<close>)\<close>

definition get_col :: "dataframe \<Rightarrow> string \<Rightarrow> column option" where
  "get_col df c = map_of (cols df) c"

text \<open>\<open>df[col] = v\<close>: an existing column is replaced in place, a new one is appended.\<close>

fun assign :: "string \<Rightarrow> column \<Rightarrow> (string \<times> column) list \<Rightarrow> (string \<times> column) list" where
  "assign c v [] = [(c, v)]"
| "assign c v ((n, x) # rest) = (if n = c then (n, v) # rest else (n, x) # assign c v rest)"

definition set_col :: "dataframe \<Rightarrow> string \<Rightarrow> column \<Rightarrow> dataframe" where
  "set_col df c v = df\<lparr>cols := assign c v (cols df)\<rparr>"

text \<open>The cell of a column at a row; a row beyond the column reads as missing.\<close>

definition cell_at :: "'a option list \<Rightarrow> nat \<Rightarrow> 'a option" where
  "cell_at xs i = (if i < length xs then xs ! i else None)"

fun present :: "'a option list \<Rightarrow> 'a list" where
  "present [] = []"
| "present (None # xs) = present xs"
| "present (Some v # xs) = v # present xs"

subsection \<open>Numeric helpers of pandas and numpy\<close>

text \<open>
  What the model takes from pandas and Python as parameters: the text of a float
  (\<open>str\<close>), and the float64 mean of a non-empty list of floats as computed by
  \<open>Series.mean()\<close>, by \<open>DataFrame.mean(axis=1)\<close> and by the mean of a group
  (three routines, each with its own order of summation).
\<close>

record float_lib =
  float_repr :: "rat \<Rightarrow> string"
  series_fmean :: "rat list \<Rightarrow> rat"
  row_fmean :: "rat list \<Rightarrow> rat"
  group_fmean :: "rat list \<Rightarrow> rat"

text \<open>
  A mean skips NaN and is NaN when no value is left; otherwise it is the float64 mean
  \<open>fmean\<close> of the values that are left. On an object column holding text
  \<open>Series.mean()\<close> raises \<open>TypeError\<close>.
\<close>

definition mean_opt :: "(rat list \<Rightarrow> rat) \<Rightarrow> rat option list \<Rightarrow> rat option" where
  "mean_opt fmean xs = (let ps = present xs in if ps = [] then None else Some (fmean ps))"

definition col_mean :: "float_lib \<Rightarrow> column \<Rightarrow> error + rat option" where
  "col_mean lib col =
     (case col of TextCol xs \<Rightarrow> Inl TypeError | NumCol xs \<Rightarrow> Inr (mean_opt (series_fmean lib) xs))"

definition max_opt :: "rat option list \<Rightarrow> rat option" where
  "max_opt xs = (case present xs of [] \<Rightarrow> None | p # ps \<Rightarrow> Some (fold max ps p))"

definition min_opt :: "rat option list \<Rightarrow> rat option" where
  "min_opt xs = (case present xs of [] \<Rightarrow> None | p # ps \<Rightarrow> Some (fold min ps p))"

text \<open>
  \<open>round(1)\<close>: numpy scales by ten, rounds to the nearest integer with ties to even,
  and scales back. It is a method of a pandas series and of a numpy float; the NaN that
  \<open>Series.mean()\<close> returns when no value is left is a plain Python float, which has no
  method \<open>round\<close>, so that \<open>mean().round(1)\<close> raises \<open>AttributeError\<close> there.
\<close>

definition round_half_even :: "rat \<Rightarrow> int" where
  "round_half_even y = (let f = \<lfloor>y\<rfloor>; d = y - of_int f in
     if d < 1 / 2 then f else if 1 / 2 < d then f + 1 else if even f then f else f + 1)"

definition round1 :: "rat \<Rightarrow> rat" where
  "round1 x = of_int (round_half_even (x * 10)) / 10"

definition one_decimal :: "rat \<Rightarrow> bool" where
  "one_decimal y = (of_int \<lfloor>y * 10\<rfloor> = y * 10)"

text \<open>\<open>Series.fillna(avg)\<close> and \<open>Series.round(1)\<close> on a numeric column\<close>

definition fill_cell :: "rat option \<Rightarrow> rat option \<Rightarrow> rat option" where
  "fill_cell avg x = (case x of None \<Rightarrow> avg | Some v \<Rightarrow> Some v)"

definition fillna :: "column \<Rightarrow> rat option \<Rightarrow> column" where
  "fillna col avg = (case col of TextCol xs \<Rightarrow> TextCol xs | NumCol xs \<Rightarrow> NumCol (map (fill_cell avg) xs))"

definition round_col :: "column \<Rightarrow> column" where
  "round_col col = (case col of TextCol xs \<Rightarrow> TextCol xs | NumCol xs \<Rightarrow> NumCol (map (map_option round1) xs))"

subsection \<open>String helpers\<close>

text \<open>
  \<open>str.strip()\<close>, \<open>str.lower()\<close> and \<open>str.replace('TH', 'th')\<close> on ASCII text
  (a \<open>char\<close> is a byte; characters beyond ASCII are left as they are).
\<close>

definition is_space :: "char \<Rightarrow> bool" where
  "is_space c = (let n = (of_char c :: nat) in (9 \<le> n \<and> n \<le> 13) \<or> (28 \<le> n \<and> n \<le> 32))"

definition py_strip :: "string \<Rightarrow> string" where
  "py_strip s = rev (dropWhile is_space (rev (dropWhile is_space s)))"

definition py_lower :: "string \<Rightarrow> string" where
  "py_lower s = map (\<lambda>c. let n = (of_char c :: nat) in
     if 65 \<le> n \<and> n \<le> 90 then char_of (n + 32) else c) s"

fun replace_TH :: "string \<Rightarrow> string" where
  "replace_TH (a # b # r) =
     (if a = CHR ''T'' \<and> b = CHR ''H'' then CHR ''t'' # CHR ''h'' # replace_TH r
      else a # replace_TH (b # r))"
| "replace_TH s = s"

text \<open>
  \<open>astype(str)\<close>: NaN becomes the text \<open>nan\<close>; a number becomes its Python
  representation, the parameter \<open>float_repr\<close>.
\<close>

definition astype_str :: "(rat \<Rightarrow> string) \<Rightarrow> column \<Rightarrow> string list" where
  "astype_str repr col = (case col of
     TextCol xs \<Rightarrow> map (\<lambda>x. case x of None \<Rightarrow> ''nan'' | Some s \<Rightarrow> s) xs
   | NumCol xs \<Rightarrow> map (\<lambda>x. case x of None \<Rightarrow> ''nan'' | Some v \<Rightarrow> repr v) xs)"

text \<open>The \<open>.str\<close> accessor applies a string function to every text cell.\<close>

definition str_map :: "(string \<Rightarrow> string) \<Rightarrow> column \<Rightarrow> column" where
  "str_map f col = (case col of TextCol xs \<Rightarrow> TextCol (map (map_option f) xs) | NumCol xs \<Rightarrow> NumCol xs)"

subsection \<open>The cleaner\<close>

definition grade_columns :: "string list" where
  "grade_columns = [''Math'', ''Science'', ''English'', ''History'', ''Art'']"

definition text_columns :: "string list" where
  "text_columns = [''name'', ''grade_level'', ''gender'']"

definition existing_grade_columns :: "dataframe \<Rightarrow> string list" where
  "existing_grade_columns df = filter (has_col df) grade_columns"

text \<open>Step 1: the loop over \<open>text_columns\<close>.\<close>

fun clean_text :: "(rat \<Rightarrow> string) \<Rightarrow> string list \<Rightarrow> dataframe \<Rightarrow> dataframe" where
  "clean_text repr [] df = df"
| "clean_text repr (c # cs) df =
     (case get_col df c of
        None \<Rightarrow> clean_text repr cs df
      | Some col \<Rightarrow> clean_text repr cs
          (set_col df c (TextCol (map (\<lambda>s. Some (py_strip s)) (astype_str repr col)))))"

text \<open>Step 2: the grade level in lower case.\<close>

definition standardize_grade_level :: "dataframe \<Rightarrow> dataframe" where
  "standardize_grade_level df =
     (case get_col df ''grade_level'' of
        None \<Rightarrow> df
      | Some col \<Rightarrow> set_col df ''grade_level'' (str_map replace_TH (str_map py_lower col)))"

text \<open>
  Step 3: the loop that fills the missing grades of each existing subject column with the
  mean of that column. The frame is updated column by column, so an exception leaves the
  columns handled so far filled.
\<close>

fun fill_missing :: "float_lib \<Rightarrow> string list \<Rightarrow> dataframe \<Rightarrow> error option \<times> dataframe" where
  "fill_missing lib [] df = (None, df)"
| "fill_missing lib (c # cs) df =
     (case get_col df c of
        None \<Rightarrow> (Some (KeyError c), df)
      | Some col \<Rightarrow>
          (case col_mean lib col of
             Inl e \<Rightarrow> (Some e, df)
           | Inr avg_grade \<Rightarrow> fill_missing lib cs (set_col df c (fillna col avg_grade))))"

text \<open>Step 4: the loop that rounds each existing subject column.\<close>

fun round_grades :: "string list \<Rightarrow> dataframe \<Rightarrow> error option \<times> dataframe" where
  "round_grades [] df = (None, df)"
| "round_grades (c # cs) df =
     (case get_col df c of
        None \<Rightarrow> (Some (KeyError c), df)
      | Some col \<Rightarrow> round_grades cs (set_col df c (round_col col)))"

definition clean_frame :: "float_lib \<Rightarrow> dataframe \<Rightarrow> error option \<times> dataframe" where
  "clean_frame lib df0 =
     (let df1 = clean_text (float_repr lib) text_columns df0;
          df2 = standardize_grade_level df1;
          existing = existing_grade_columns df2
      in if existing \<noteq> [] then
           (case fill_missing lib existing df2 of
              (Some e, df3) \<Rightarrow> (Some e, df3)
            | (None, df3) \<Rightarrow> round_grades existing df3)
         else (None, df2))"

subsection \<open>The analyzer object and its heap\<close>

record basic_stats =
  total_students :: nat
  average_overall_grade :: rat
  highest_grade :: "rat option"
  lowest_grade :: "rat option"

text \<open>The dictionary \<open>self.results\<close>: a key that was never stored is \<open>None\<close>.\<close>

record results =
  basic_stats_of :: "basic_stats option"
  subject_averages :: "(string \<times> rat) list option"
  grade_distribution :: "(cell \<times> nat) list option"
  performance_by_grade :: "(cell \<times> rat option) list option"
  gender_performance :: "(cell \<times> rat option) list option"

record analyzer =
  heap :: "nat \<Rightarrow> dataframe"
  next_ref :: nat
  raw_data :: "nat option"
  cleaned_data :: "nat option"
  results :: results

definition empty_frame :: dataframe where
  "empty_frame = \<lparr>nrows = 0, cols = []\<rparr>"

definition no_results :: results where
  "no_results = \<lparr>basic_stats_of = None, subject_averages = None, grade_distribution = None,
     performance_by_grade = None, gender_performance = None\<rparr>"

text \<open>\<open>__init__\<close>\<close>

definition init :: analyzer where
  "init = \<lparr>heap = (\<lambda>_. empty_frame), next_ref = 0, raw_data = None, cleaned_data = None,
     results = no_results\<rparr>"

text \<open>A new data frame object gets the next unused reference.\<close>

definition alloc :: "dataframe \<Rightarrow> analyzer \<Rightarrow> nat \<times> analyzer" where
  "alloc df st = (next_ref st, st\<lparr>heap := (heap st)(next_ref st := df), next_ref := Suc (next_ref st)\<rparr>)"

text \<open>\<open>load_data\<close>: the frame that \<open>read_csv\<close> (or the sample generator) builds is a parameter.\<close>

definition load_data :: "dataframe \<Rightarrow> analyzer \<Rightarrow> nat \<times> analyzer" where
  "load_data file st = (case alloc file st of (r, st') \<Rightarrow> (r, st'\<lparr>raw_data := Some r\<rparr>))"

text \<open>
  \<open>clean_data\<close>: \<open>self.raw_data.copy()\<close> is a new object, which the steps then update in
  place; \<open>self.cleaned_data\<close> refers to it from the start, also when a step raises.
\<close>

definition clean_data :: "float_lib \<Rightarrow> analyzer \<Rightarrow> (error + nat option) \<times> analyzer" where
  "clean_data lib st =
     (case raw_data st of
        None \<Rightarrow> (Inr None, st)
      | Some r \<Rightarrow>
          (case clean_frame lib (heap st r) of (err, df) \<Rightarrow>
             (case alloc df st of (r', st') \<Rightarrow>
                (case err of
                   Some e \<Rightarrow> (Inl e, st'\<lparr>cleaned_data := Some r'\<rparr>)
                 | None \<Rightarrow> (Inr (Some r'), st'\<lparr>cleaned_data := Some r'\<rparr>)))))"

subsection \<open>The transformer\<close>

text \<open>A comparison \<open>score >= t\<close> of floats is false when the score is NaN.\<close>

definition ge_float :: "rat option \<Rightarrow> rat \<Rightarrow> bool" where
  "ge_float score t = (case score of None \<Rightarrow> False | Some s \<Rightarrow> t \<le> s)"

definition get_letter_grade :: "rat option \<Rightarrow> string" where
  "get_letter_grade score =
     (if ge_float score 90 then ''A''
      else if ge_float score 80 then ''B''
      else if ge_float score 70 then ''C''
      else if ge_float score 60 then ''D''
      else ''F'')"

definition get_performance_category :: "rat option \<Rightarrow> string" where
  "get_performance_category score =
     (if ge_float score 85 then ''Excellent''
      else if ge_float score 75 then ''Good''
      else if ge_float score 65 then ''Average''
      else ''Needs Improvement'')"

text \<open>
  \<open>df[existing_grade_columns]\<close> as the list of the selected numeric columns. A reduction
  along the rows of a selection that holds a text column raises \<open>TypeError\<close>.
\<close>

fun select_numeric :: "dataframe \<Rightarrow> string list \<Rightarrow> error + (string \<times> rat option list) list" where
  "select_numeric df [] = Inr []"
| "select_numeric df (c # cs) =
     (case get_col df c of
        None \<Rightarrow> Inl (KeyError c)
      | Some (TextCol xs) \<Rightarrow> Inl TypeError
      | Some (NumCol xs) \<Rightarrow>
          (case select_numeric df cs of Inl e \<Rightarrow> Inl e | Inr sel \<Rightarrow> Inr ((c, xs) # sel)))"

definition row_cells :: "(string \<times> rat option list) list \<Rightarrow> nat \<Rightarrow> (string \<times> rat option) list" where
  "row_cells sel i = map (\<lambda>(c, xs). (c, cell_at xs i)) sel"

text \<open>\<open>mean(axis=1).round(1)\<close>\<close>

definition row_means :: "float_lib \<Rightarrow> nat \<Rightarrow> (string \<times> rat option list) list \<Rightarrow> rat option list" where
  "row_means lib n sel =
     map (\<lambda>i. map_option round1 (mean_opt (row_fmean lib) (map snd (row_cells sel i)))) [0..<n]"

text \<open>
  \<open>idxmax(axis=1)\<close> and \<open>idxmin(axis=1)\<close>: the label of the first column that holds the
  extreme value of the row, NaN cells skipped; NaN for a row of NaN only.
\<close>

fun arg_best :: "(rat \<Rightarrow> rat \<Rightarrow> bool) \<Rightarrow> string \<times> rat \<Rightarrow> (string \<times> rat) list \<Rightarrow> string" where
  "arg_best better b [] = fst b"
| "arg_best better b (x # xs) = arg_best better (if better (snd x) (snd b) then x else b) xs"

fun present_cells :: "(string \<times> rat option) list \<Rightarrow> (string \<times> rat) list" where
  "present_cells [] = []"
| "present_cells ((c, None) # xs) = present_cells xs"
| "present_cells ((c, Some v) # xs) = (c, v) # present_cells xs"

definition idx_row :: "(rat \<Rightarrow> rat \<Rightarrow> bool) \<Rightarrow> (string \<times> rat option) list \<Rightarrow> string option" where
  "idx_row better cells = (case present_cells cells of [] \<Rightarrow> None | b # xs \<Rightarrow> Some (arg_best better b xs))"

definition idxmax :: "nat \<Rightarrow> (string \<times> rat option list) list \<Rightarrow> string option list" where
  "idxmax n sel = map (\<lambda>i. idx_row (\<lambda>x y. y < x) (row_cells sel i)) [0..<n]"

definition idxmin :: "nat \<Rightarrow> (string \<times> rat option list) list \<Rightarrow> string option list" where
  "idxmin n sel = map (\<lambda>i. idx_row (\<lambda>x y. x < y) (row_cells sel i)) [0..<n]"

definition derived_columns :: "string list" where
  "derived_columns = [''overall_average'', ''letter_grade'', ''performance'', ''best_subject'', ''worst_subject'']"

text \<open>
  The body of \<open>transform_data\<close> on the frame that \<open>self.cleaned_data\<close> refers to. The only
  operation that can raise is the first one, before any column is stored.
\<close>

definition transform_frame :: "float_lib \<Rightarrow> dataframe \<Rightarrow> error + dataframe option" where
  "transform_frame lib df =
     (let existing = existing_grade_columns df in
      if existing \<noteq> [] then
        (case select_numeric df existing of
           Inl e \<Rightarrow> Inl e
         | Inr sel \<Rightarrow>
             (let overall = row_means lib (nrows df) sel;
                  df1 = set_col df ''overall_average'' (NumCol overall);
                  df2 = set_col df1 ''letter_grade'' (TextCol (map (\<lambda>s. Some (get_letter_grade s)) overall));
                  df3 = set_col df2 ''performance'' (TextCol (map (\<lambda>s. Some (get_performance_category s)) overall));
                  df4 = set_col df3 ''best_subject'' (TextCol (idxmax (nrows df) sel));
                  df5 = set_col df4 ''worst_subject'' (TextCol (idxmin (nrows df) sel))
              in Inr (Some df5)))
      else Inr None)"

text \<open>
  \<open>transform_data\<close> stores the new columns into the object that \<open>self.cleaned_data\<close>
  refers to and returns that same reference.
\<close>

definition transform_data :: "float_lib \<Rightarrow> analyzer \<Rightarrow> (error + nat option) \<times> analyzer" where
  "transform_data lib st =
     (case cleaned_data st of
        None \<Rightarrow> (Inr None, st)
      | Some r \<Rightarrow>
          (case transform_frame lib (heap st r) of
             Inl e \<Rightarrow> (Inl e, st)
           | Inr None \<Rightarrow> (Inr None, st)
           | Inr (Some df) \<Rightarrow> (Inr (Some r), st\<lparr>heap := (heap st)(r := df)\<rparr>)))"

subsection \<open>The aggregator\<close>

definition col_cells :: "column \<Rightarrow> cell option list" where
  "col_cells col = (case col of TextCol xs \<Rightarrow> map (map_option S) xs | NumCol xs \<Rightarrow> map (map_option N) xs)"

text \<open>
  The dictionary stored under \<open>basic_stats\<close>. Its entries are evaluated in order; the
  second one is \<open>mean().round(1)\<close>.
\<close>

definition stats_of :: "float_lib \<Rightarrow> dataframe \<Rightarrow> error + basic_stats" where
  "stats_of lib df =
     (case get_col df ''overall_average'' of
        None \<Rightarrow> Inl (KeyError ''overall_average'')
      | Some (TextCol xs) \<Rightarrow> Inl TypeError
      | Some (NumCol xs) \<Rightarrow>
          (case mean_opt (series_fmean lib) xs of
             None \<Rightarrow> Inl AttributeError
           | Some m \<Rightarrow>
               Inr \<lparr>total_students = nrows df,
                    average_overall_grade = round1 m,
                    highest_grade = max_opt xs,
                    lowest_grade = min_opt xs\<rparr>))"

text \<open>The loop that fills \<open>results['subject_averages']\<close>, one key at a time.\<close>

fun subject_loop :: "float_lib \<Rightarrow> dataframe \<Rightarrow> string list \<Rightarrow> (string \<times> rat) list
    \<Rightarrow> error option \<times> (string \<times> rat) list" where
  "subject_loop lib df [] acc = (None, acc)"
| "subject_loop lib df (subject # rest) acc =
     (case get_col df subject of
        None \<Rightarrow> (Some (KeyError subject), acc)
      | Some col \<Rightarrow>
          (case col_mean lib col of
             Inl e \<Rightarrow> (Some e, acc)
           | Inr None \<Rightarrow> (Some AttributeError, acc)
           | Inr (Some m) \<Rightarrow> subject_loop lib df rest (acc @ [(subject, round1 m)])))"

text \<open>
  \<open>value_counts()\<close>: the number of occurrences of each value that is not NaN, most
  frequent first (values of equal count in the order of their first occurrence).
\<close>

definition value_counts :: "column \<Rightarrow> (cell \<times> nat) list" where
  "value_counts col = (let vs = present (col_cells col) in
     sort_key (\<lambda>(k, n). - int n) (map (\<lambda>k. (k, count_list vs k)) (rev (remdups (rev vs)))))"

text \<open>
  \<open>groupby(key)['overall_average'].mean().round(1).to_dict()\<close>: one entry for each value
  of the key column that is not NaN, keys in ascending order.
\<close>

definition group_keys :: "column \<Rightarrow> cell list" where
  "group_keys col = (case col of
     TextCol xs \<Rightarrow> map S (sort (remdups (present xs)))
   | NumCol xs \<Rightarrow> map N (sort (remdups (present xs))))"

definition group_mean :: "float_lib \<Rightarrow> nat \<Rightarrow> cell option list \<Rightarrow> rat option list \<Rightarrow> cell \<Rightarrow> rat option" where
  "group_mean lib n keys vals k =
     map_option round1 (mean_opt (group_fmean lib)
       (map (cell_at vals) (filter (\<lambda>i. cell_at keys i = Some k) [0..<n])))"

definition groupby_mean :: "float_lib \<Rightarrow> dataframe \<Rightarrow> string \<Rightarrow> error + (cell \<times> rat option) list" where
  "groupby_mean lib df key =
     (case get_col df key of
        None \<Rightarrow> Inl (KeyError key)
      | Some kcol \<Rightarrow>
          (case get_col df ''overall_average'' of
             None \<Rightarrow> Inl (KeyError ''overall_average'')
           | Some (TextCol xs) \<Rightarrow> Inl TypeError
           | Some (NumCol xs) \<Rightarrow>
               Inr (map (\<lambda>k. (k, group_mean lib (nrows df) (col_cells kcol) xs k)) (group_keys kcol))))"

text \<open>
  The body of \<open>analyze_data\<close> after its two guards. Each key of \<open>self.results\<close> is stored
  as soon as it is computed, so the keys stored before an exception stay stored.
\<close>

definition analyze_frame :: "float_lib \<Rightarrow> dataframe \<Rightarrow> results \<Rightarrow> error option \<times> results" where
  "analyze_frame lib df res0 =
     (case stats_of lib df of
        Inl e \<Rightarrow> (Some e, res0)
      | Inr bs \<Rightarrow>
     (let res1 = res0\<lparr>basic_stats_of := Some bs\<rparr> in
      case subject_loop lib df (existing_grade_columns df) [] of
        (Some e, sa) \<Rightarrow> (Some e, res1\<lparr>subject_averages := Some sa\<rparr>)
      | (None, sa) \<Rightarrow>
     (let res2 = res1\<lparr>subject_averages := Some sa\<rparr> in
      case get_col df ''letter_grade'' of
        None \<Rightarrow> (Some (KeyError ''letter_grade''), res2)
      | Some lg \<Rightarrow>
     (let res3 = res2\<lparr>grade_distribution := Some (value_counts lg)\<rparr> in
      case groupby_mean lib df ''grade_level'' of
        Inl e \<Rightarrow> (Some e, res3)
      | Inr pg \<Rightarrow>
     (let res4 = res3\<lparr>performance_by_grade := Some pg\<rparr> in
      if has_col df ''gender'' then
        (case groupby_mean lib df ''gender'' of
           Inl e \<Rightarrow> (Some e, res4)
         | Inr gp \<Rightarrow> (None, res4\<lparr>gender_performance := Some gp\<rparr>))
      else (None, res4\<lparr>gender_performance := Some []\<rparr>))))))"

definition analyze_data :: "float_lib \<Rightarrow> analyzer \<Rightarrow> (error + results option) \<times> analyzer" where
  "analyze_data lib st =
     (case cleaned_data st of
        None \<Rightarrow> (Inr None, st)
      | Some r \<Rightarrow>
          (if existing_grade_columns (heap st r) = [] then (Inr None, st)
           else (case analyze_frame lib (heap st r) (results st) of
                   (Some e, res) \<Rightarrow> (Inl e, st\<lparr>results := res\<rparr>)
                 | (None, res) \<Rightarrow> (Inr (Some res), st\<lparr>results := res\<rparr>))))"

subsection \<open>Binary64 arithmetic for the examples\<close>

text \<open>
  The examples are evaluated with one instance of the parameters: every sum and every
  quotient is rounded to the nearest number with 53 significant bits, ties to even (the
  exponent range is not bounded: the values at hand are far from overflow and underflow),
  and a mean adds the values from left to right.
\<close>

function bitlen :: "int \<Rightarrow> nat" where
  "bitlen n = (if n \<le> 0 then 0 else Suc (bitlen (n div 2)))"
  by pat_completeness auto
termination
  by (relation "measure nat") auto

declare bitlen.simps [simp del]

definition pow2 :: "int \<Rightarrow> rat" where
  "pow2 e = (if 0 \<le> e then 2 ^ nat e else 1 / 2 ^ nat (- e))"

text \<open>The exponent \<open>e\<close> with \<open>2 ^ e \<le> x < 2 ^ (e + 1)\<close>, for a positive \<open>x\<close>.\<close>

definition ilog2 :: "rat \<Rightarrow> int" where
  "ilog2 x = (case quotient_of x of (p, q) \<Rightarrow>
     (let d = int (bitlen p) - int (bitlen q) in if pow2 d \<le> x then d else d - 1))"

definition fl64 :: "rat \<Rightarrow> rat" where
  "fl64 x = (if x = 0 then 0
     else (let s = pow2 (ilog2 \<bar>x\<bar> - 52) in of_int (round_half_even (x / s)) * s))"

definition fl_mean :: "rat list \<Rightarrow> rat" where
  "fl_mean vs = fl64 (foldl (\<lambda>s v. fl64 (s + v)) 0 vs / of_nat (length vs))"

text \<open>None of the examples holds a number in a text column, so \<open>float_repr\<close> is never applied.\<close>

definition binary64 :: float_lib where
  "binary64 = \<lparr>float_repr = (\<lambda>_. []), series_fmean = fl_mean, row_fmean = fl_mean,
     group_fmean = fl_mean\<rparr>"

subsection \<open>Example datasets\<close>

definition sample_raw :: dataframe where
  "sample_raw = \<lparr>nrows = 4, cols =
     [(''student_id'', TextCol [Some ''STU001'', Some ''STU002'', Some ''STU003'', Some ''STU004'']),
      (''name'', TextCol [Some ''  Student 1  '', Some ''Student 2'', Some ''Student 3'', Some ''Student 4'']),
      (''grade_level'', TextCol [Some ''10TH'', Some ''9th'', Some ''9th'', Some ''9th'']),
      (''gender'', TextCol [Some ''Female'', Some ''Female'', Some ''Male'', Some ''Male'']),
      (''Math'', NumCol [Some (805 / 10), None, Some (995 / 10), Some 81]),
      (''Art'', NumCol [Some (8026 / 100), Some (502 / 10), Some (995 / 10), Some (852 / 10)])]\<rparr>"

definition sample_loaded :: analyzer where
  "sample_loaded = snd (load_data sample_raw init)"

definition sample_cleaned :: analyzer where
  "sample_cleaned = snd (clean_data binary64 sample_loaded)"

definition sample_transformed :: analyzer where
  "sample_transformed = snd (transform_data binary64 sample_cleaned)"

text \<open>A file with no subject column at all.\<close>

definition no_subject_raw :: dataframe where
  "no_subject_raw = \<lparr>nrows = 2, cols =
     [(''student_id'', TextCol [Some ''STU001'', Some ''STU002'']),
      (''name'', TextCol [Some ''Student 1'', Some ''Student 2''])]\<rparr>"

definition no_subject_loaded :: analyzer where
  "no_subject_loaded = snd (load_data no_subject_raw init)"

text \<open>A file with a subject and the gender, and no grade level.\<close>

definition no_level_raw :: dataframe where
  "no_level_raw = \<lparr>nrows = 2, cols =
     [(''student_id'', TextCol [Some ''STU001'', Some ''STU002'']),
      (''gender'', TextCol [Some ''Female'', Some ''Male'']),
      (''Math'', NumCol [Some 100, Some 60])]\<rparr>"

definition no_level_transformed :: analyzer where
  "no_level_transformed =
     snd (transform_data binary64 (snd (clean_data binary64 (snd (load_data no_level_raw init)))))"

text \<open>A file whose Math column has no grade at all.\<close>

definition empty_math_raw :: dataframe where
  "empty_math_raw = \<lparr>nrows = 2, cols =
     [(''student_id'', TextCol [Some ''STU001'', Some ''STU002'']),
      (''Math'', NumCol [None, None]),
      (''Science'', NumCol [Some 70, Some 80])]\<rparr>"

definition empty_math_loaded :: analyzer where
  "empty_math_loaded = snd (load_data empty_math_raw init)"

text \<open>The scenario of one subject: three students, the second without a Math grade.\<close>

definition scenario_raw :: dataframe where
  "scenario_raw = \<lparr>nrows = 3, cols =
     [(''student_id'', TextCol [Some ''STU001'', Some ''STU002'', Some ''STU003'']),
      (''Math'', NumCol [Some 80, None, Some 100])]\<rparr>"

definition scenario_loaded :: analyzer where
  "scenario_loaded = snd (load_data scenario_raw init)"

definition scenario_cleaned :: analyzer where
  "scenario_cleaned = snd (clean_data binary64 scenario_loaded)"

text \<open>
  The same scenario with the grades 84.6 and 95.3, as the floats that \<open>read_csv\<close> makes
  of them. Their exact mean is 89.95; the float64 mean is just below it.
\<close>

definition near_tie_raw :: dataframe where
  "near_tie_raw = \<lparr>nrows = 3, cols =
     [(''student_id'', TextCol [Some ''STU001'', Some ''STU002'', Some ''STU003'']),
      (''Math'', NumCol [Some (fl64 (846 / 10)), None, Some (fl64 (953 / 10))])]\<rparr>"

definition near_tie_cleaned :: analyzer where
  "near_tie_cleaned = snd (clean_data binary64 (snd (load_data near_tie_raw init)))"



section \<open>Properties\<close>

subsection \<open>Column assignment and lookup\<close>

lemma map_of_assign: "map_of (assign c v cs) = (map_of cs)(c \<mapsto> v)"
  by (induction cs) (auto simp: fun_eq_iff)

lemma names_assign: "c \<in> set (map fst cs) \<Longrightarrow> map fst (assign c v cs) = map fst cs"
  by (induction cs) force+

lemma assign_same: "map_of cs c = Some v \<Longrightarrow> assign c v cs = cs"
  by (induction cs) (auto split: if_splits)

lemma has_col_get_col: "has_col df c \<longleftrightarrow> get_col df c \<noteq> None"
  by (simp add: has_col_def get_col_def map_of_eq_None_iff)

lemma get_col_set_col: "get_col (set_col df c v) c' = (if c' = c then Some v else get_col df c')"
  by (simp add: get_col_def set_col_def map_of_assign)

lemma has_col_set_col: "has_col (set_col df c v) c' \<longleftrightarrow> c' = c \<or> has_col df c'"
  by (simp add: has_col_get_col get_col_set_col)

lemma nrows_set_col: "nrows (set_col df c v) = nrows df"
  by (simp add: set_col_def)

lemma names_set_col: "has_col df c \<Longrightarrow> map fst (cols (set_col df c v)) = map fst (cols df)"
  by (simp add: has_col_def set_col_def names_assign)

lemma clean_text_names: "map fst (cols (clean_text f cs df)) = map fst (cols df)"
  by (induction cs arbitrary: df) (auto simp: names_set_col has_col_get_col split: option.splits)

lemma clean_text_nrows: "nrows (clean_text f cs df) = nrows df"
  by (induction cs arbitrary: df) (auto simp: nrows_set_col split: option.splits)

lemma clean_text_get_col: "c \<notin> set cs \<Longrightarrow> get_col (clean_text f cs df) c = get_col df c"
  by (induction cs arbitrary: df) (auto simp: get_col_set_col split: option.splits)

lemma standardize_names: "map fst (cols (standardize_grade_level df)) = map fst (cols df)"
  by (auto simp: standardize_grade_level_def names_set_col has_col_get_col split: option.splits)

lemma standardize_nrows: "nrows (standardize_grade_level df) = nrows df"
  by (auto simp: standardize_grade_level_def nrows_set_col split: option.splits)

lemma standardize_get_col: "c \<noteq> ''grade_level'' \<Longrightarrow> get_col (standardize_grade_level df) c = get_col df c"
  by (auto simp: standardize_grade_level_def get_col_set_col split: option.splits)

lemma existing_names_cong: "map fst (cols df') = map fst (cols df) \<Longrightarrow> existing_grade_columns df' = existing_grade_columns df"
  by (simp add: existing_grade_columns_def has_col_def cong: filter_cong)

lemma fill_missing_names: "fill_missing lib cs df = (e, df') \<Longrightarrow> map fst (cols df') = map fst (cols df)"
proof (induction cs arbitrary: df)
  case Nil
  then show ?case by simp
next
  case (Cons c cs)
  show ?case
  proof (cases "get_col df c")
    case None
    with Cons.prems show ?thesis by simp
  next
    case (Some col)
    then have h: "has_col df c" by (simp add: has_col_get_col)
    show ?thesis
    proof (cases "col_mean lib col")
      case (Inl err)
      with Some Cons.prems show ?thesis by simp
    next
      case (Inr avg)
      with Some Cons.prems have "fill_missing lib cs (set_col df c (fillna col avg)) = (e, df')" by simp
      from Cons.IH [OF this] show ?thesis by (simp add: names_set_col h)
    qed
  qed
qed

lemma fill_missing_nrows: "fill_missing lib cs df = (e, df') \<Longrightarrow> nrows df' = nrows df"
  by (induction cs arbitrary: df) (auto simp: nrows_set_col split: option.splits sum.splits)

lemma fill_missing_other: "fill_missing lib cs df = (e, df') \<Longrightarrow> c \<notin> set cs \<Longrightarrow> get_col df' c = get_col df c"
  by (induction cs arbitrary: df) (auto simp: get_col_set_col split: option.splits sum.splits)

lemma fill_missing_col:
  "fill_missing lib cs df = (None, df') \<Longrightarrow> distinct cs \<Longrightarrow> c \<in> set cs \<Longrightarrow>
   \<exists>xs. get_col df c = Some (NumCol xs) \<and> get_col df' c = Some (NumCol (map (fill_cell (mean_opt (series_fmean lib) xs)) xs))"
proof (induction cs arbitrary: df)
  case Nil
  then show ?case by simp
next
  case (Cons a cs)
  from Cons.prems(1) obtain col avg where col: "get_col df a = Some col" and avg: "col_mean lib col = Inr avg"
    and rest: "fill_missing lib cs (set_col df a (fillna col avg)) = (None, df')"
    by (auto split: option.splits sum.splits)
  show ?case
  proof (cases "c = a")
    case True
    from avg obtain xs where xs: "col = NumCol xs" "avg = mean_opt (series_fmean lib) xs"
      by (auto simp: col_mean_def split: column.splits)
    from Cons.prems(2) True have "c \<notin> set cs" by simp
    from fill_missing_other [OF rest this] True xs col show ?thesis
      by (simp add: get_col_set_col fillna_def)
  next
    case False
    with Cons.prems have "c \<in> set cs" "distinct cs" by auto
    from Cons.IH [OF rest this(2) this(1)] False show ?thesis
      by (simp add: get_col_set_col)
  qed
qed

lemma round_grades_names: "round_grades cs df = (e, df') \<Longrightarrow> map fst (cols df') = map fst (cols df)"
proof (induction cs arbitrary: df)
  case Nil
  then show ?case by simp
next
  case (Cons c cs)
  show ?case
  proof (cases "get_col df c")
    case None
    with Cons.prems show ?thesis by simp
  next
    case (Some col)
    then have h: "has_col df c" by (simp add: has_col_get_col)
    from Some Cons.prems have "round_grades cs (set_col df c (round_col col)) = (e, df')" by simp
    from Cons.IH [OF this] show ?thesis by (simp add: names_set_col h)
  qed
qed

lemma round_grades_nrows: "round_grades cs df = (e, df') \<Longrightarrow> nrows df' = nrows df"
  by (induction cs arbitrary: df) (auto simp: nrows_set_col split: option.splits)

lemma round_grades_other: "round_grades cs df = (e, df') \<Longrightarrow> c \<notin> set cs \<Longrightarrow> get_col df' c = get_col df c"
  by (induction cs arbitrary: df) (auto simp: get_col_set_col split: option.splits)

lemma round_grades_col:
  "round_grades cs df = (None, df') \<Longrightarrow> distinct cs \<Longrightarrow> c \<in> set cs \<Longrightarrow>
   get_col df' c = map_option round_col (get_col df c)"
proof (induction cs arbitrary: df)
  case Nil
  then show ?case by simp
next
  case (Cons a cs)
  from Cons.prems(1) obtain col where col: "get_col df a = Some col"
    and rest: "round_grades cs (set_col df a (round_col col)) = (None, df')"
    by (auto split: option.splits)
  show ?case
  proof (cases "c = a")
    case True
    from Cons.prems(2) True have "c \<notin> set cs" by simp
    from round_grades_other [OF rest this] True col show ?thesis
      by (simp add: get_col_set_col)
  next
    case False
    with Cons.prems have "c \<in> set cs" "distinct cs" by auto
    from Cons.IH [OF rest this(2) this(1)] False show ?thesis
      by (simp add: get_col_set_col)
  qed
qed

lemma distinct_grade_columns: "distinct grade_columns"
  by (simp add: grade_columns_def)

lemma distinct_existing: "distinct (existing_grade_columns df)"
  by (simp add: existing_grade_columns_def distinct_grade_columns)

lemma grade_not_text: "c \<in> set grade_columns \<Longrightarrow> c \<notin> set text_columns"
  by (auto simp: grade_columns_def text_columns_def)

lemma grade_not_level: "c \<in> set grade_columns \<Longrightarrow> c \<noteq> ''grade_level''"
  by (auto simp: grade_columns_def)

lemma clean_frame_names: "clean_frame lib df = (e, df') \<Longrightarrow> map fst (cols df') = map fst (cols df)"
  by (auto simp: clean_frame_def Let_def clean_text_names standardize_names
      split: if_splits prod.splits option.splits dest!: fill_missing_names round_grades_names)

lemma clean_frame_nrows: "clean_frame lib df = (e, df') \<Longrightarrow> nrows df' = nrows df"
  by (auto simp: clean_frame_def Let_def clean_text_nrows standardize_nrows
      split: if_splits prod.splits option.splits dest!: fill_missing_nrows round_grades_nrows)

lemma clean_frame_subject:
  assumes ok: "clean_frame lib df = (None, df')"
    and c: "c \<in> set grade_columns"
    and h: "has_col df c"
  shows "\<exists>xs. get_col df c = Some (NumCol xs) \<and>
     get_col df' c = Some (NumCol (map (map_option round1) (map (fill_cell (mean_opt (series_fmean lib) xs)) xs)))"
proof -
  define df2 where "df2 = standardize_grade_level (clean_text (float_repr lib) text_columns df)"
  have names2: "map fst (cols df2) = map fst (cols df)"
    by (simp add: df2_def standardize_names clean_text_names)
  have ex2: "existing_grade_columns df2 = existing_grade_columns df"
    by (rule existing_names_cong [OF names2])
  have get2: "get_col df2 c = get_col df c"
    using c by (simp add: df2_def standardize_get_col grade_not_level clean_text_get_col grade_not_text)
  from c h have mem: "c \<in> set (existing_grade_columns df2)"
    unfolding ex2 by (simp add: existing_grade_columns_def)
  then have ne: "existing_grade_columns df2 \<noteq> []" by auto
  from ok ne obtain df3 where fill: "fill_missing lib (existing_grade_columns df2) df2 = (None, df3)"
    and rnd: "round_grades (existing_grade_columns df2) df3 = (None, df')"
    by (auto simp: clean_frame_def Let_def df2_def split: prod.splits option.splits)
  from fill_missing_col [OF fill distinct_existing mem] get2
  obtain xs where xs: "get_col df c = Some (NumCol xs)"
    and f3: "get_col df3 c = Some (NumCol (map (fill_cell (mean_opt (series_fmean lib) xs)) xs))" by auto
  from round_grades_col [OF rnd distinct_existing mem] f3
  have "get_col df' c = Some (NumCol (map (map_option round1) (map (fill_cell (mean_opt (series_fmean lib) xs)) xs)))"
    by (simp add: round_col_def)
  with xs show ?thesis by blast
qed

lemma clean_frame_no_subjects:
  "existing_grade_columns df = [] \<Longrightarrow>
   clean_frame lib df = (None, standardize_grade_level (clean_text (float_repr lib) text_columns df))"
  by (simp add: clean_frame_def Let_def existing_names_cong [OF trans [OF standardize_names clean_text_names]])

subsection \<open>The stateful methods\<close>

lemma clean_data_result:
  assumes "raw_data st = Some r" and "clean_data lib st = (Inr (Some r'), st')"
  shows "clean_frame lib (heap st r) = (None, heap st' r') \<and> r' = next_ref st \<and>
     cleaned_data st' = Some r' \<and> raw_data st' = Some r \<and> next_ref st' = Suc r' \<and>
     (\<forall>q. q \<noteq> r' \<longrightarrow> heap st' q = heap st q)"
  using assms
  by (auto simp: clean_data_def alloc_def split: prod.splits option.splits)

lemma sample_raw_ref: "raw_data sample_loaded = Some 0"
  by code_simp

lemma sample_clean_ok: "clean_data binary64 sample_loaded = (Inr (Some 1), sample_cleaned)"
proof -
  have "fst (clean_data binary64 sample_loaded) = Inr (Some 1)" by code_simp
  then show ?thesis by (simp add: sample_cleaned_def prod_eq_iff)
qed

lemma sample_transform_ok: "transform_data binary64 sample_cleaned = (Inr (Some 1), sample_transformed)"
proof -
  have "fst (transform_data binary64 sample_cleaned) = Inr (Some 1)" by code_simp
  then show ?thesis by (simp add: sample_transformed_def prod_eq_iff)
qed

lemma transform_frame_result:
  assumes "transform_frame lib df = Inr (Some df')"
  shows "\<exists>sel. existing_grade_columns df \<noteq> [] \<and>
     select_numeric df (existing_grade_columns df) = Inr sel \<and>
     df' = set_col (set_col (set_col (set_col (set_col df
       ''overall_average'' (NumCol (row_means lib (nrows df) sel)))
       ''letter_grade'' (TextCol (map (\<lambda>s. Some (get_letter_grade s)) (row_means lib (nrows df) sel))))
       ''performance'' (TextCol (map (\<lambda>s. Some (get_performance_category s)) (row_means lib (nrows df) sel))))
       ''best_subject'' (TextCol (idxmax (nrows df) sel)))
       ''worst_subject'' (TextCol (idxmin (nrows df) sel))"
  using assms
  by (auto simp: transform_frame_def Let_def split: if_splits sum.splits)

lemma transform_frame_derived:
  assumes "transform_frame lib df = Inr (Some df')"
  shows "\<exists>avg. length avg = nrows df \<and> nrows df' = nrows df \<and>
     get_col df' ''overall_average'' = Some (NumCol avg) \<and>
     get_col df' ''letter_grade'' = Some (TextCol (map (\<lambda>s. Some (get_letter_grade s)) avg)) \<and>
     get_col df' ''performance'' = Some (TextCol (map (\<lambda>s. Some (get_performance_category s)) avg))"
proof -
  from transform_frame_result [OF assms] obtain sel where
    df': "df' = set_col (set_col (set_col (set_col (set_col df
       ''overall_average'' (NumCol (row_means lib (nrows df) sel)))
       ''letter_grade'' (TextCol (map (\<lambda>s. Some (get_letter_grade s)) (row_means lib (nrows df) sel))))
       ''performance'' (TextCol (map (\<lambda>s. Some (get_performance_category s)) (row_means lib (nrows df) sel))))
       ''best_subject'' (TextCol (idxmax (nrows df) sel)))
       ''worst_subject'' (TextCol (idxmin (nrows df) sel))" by blast
  have "length (row_means lib (nrows df) sel) = nrows df" by (simp add: row_means_def)
  then show ?thesis
    unfolding df' by (intro exI [of _ "row_means lib (nrows df) sel"]) (simp add: get_col_set_col nrows_set_col)
qed

lemma transform_data_result:
  assumes "transform_data lib st = (Inr (Some r), st')"
  shows "cleaned_data st = Some r \<and> transform_frame lib (heap st r) = Inr (Some (heap st' r)) \<and>
     cleaned_data st' = Some r \<and> raw_data st' = raw_data st \<and> next_ref st' = next_ref st \<and>
     results st' = results st \<and> (\<forall>q. q \<noteq> r \<longrightarrow> heap st' q = heap st q)"
  using assms
  by (auto simp: transform_data_def split: option.splits sum.splits)

lemma scenario_clean_ok: "clean_data binary64 scenario_loaded = (Inr (Some 1), scenario_cleaned)"
proof -
  have "fst (clean_data binary64 scenario_loaded) = Inr (Some 1)" by code_simp
  then show ?thesis by (simp add: scenario_cleaned_def prod_eq_iff)
qed

lemma one_decimal_round1: "one_decimal (round1 v)"
  by (simp add: one_decimal_def round1_def)

lemma clean_data_subject:
  assumes "raw_data st = Some r" and "clean_data lib st = (Inr (Some r'), st')"
    and "c \<in> set grade_columns" and "has_col (heap st r) c"
  shows "\<exists>xs. get_col (heap st r) c = Some (NumCol xs) \<and>
     get_col (heap st' r') c = Some (NumCol (map (map_option round1) (map (fill_cell (mean_opt (series_fmean lib) xs)) xs)))"
  using clean_data_result [OF assms(1,2)] clean_frame_subject [OF _ assms(3,4)] by blast

lemma clean_leaves_no_missing:
  assumes "raw_data st = Some r" and "clean_data lib st = (Inr (Some r'), st')"
    and "c \<in> set grade_columns" and "get_col (heap st r) c = Some (NumCol xs)"
    and "present xs \<noteq> []"
  shows "\<exists>ys. get_col (heap st' r') c = Some (NumCol ys) \<and> length ys = length xs \<and> None \<notin> set ys"
proof -
  from assms(4) have "has_col (heap st r) c" by (simp add: has_col_get_col)
  from clean_data_subject [OF assms(1,2,3) this] assms(4)
  have ys: "get_col (heap st' r') c = Some (NumCol (map (map_option round1) (map (fill_cell (mean_opt (series_fmean lib) xs)) xs)))"
    by auto
  from assms(5) obtain m where "mean_opt (series_fmean lib) xs = Some m" by (auto simp: mean_opt_def Let_def)
  then have "None \<notin> set (map (map_option round1) (map (fill_cell (mean_opt (series_fmean lib) xs)) xs))"
    by (auto simp: fill_cell_def split: option.splits)
  with ys show ?thesis by auto
qed

lemma round_half_even_near: "\<bar>of_int (round_half_even y) - y\<bar> \<le> 1 / 2"
proof -
  have lo: "of_int \<lfloor>y\<rfloor> \<le> y" and hi: "y < of_int \<lfloor>y\<rfloor> + 1"
    by linarith+
  show ?thesis
  proof (cases "y - of_int \<lfloor>y\<rfloor> < 1 / 2")
    case True
    with lo show ?thesis by (simp add: round_half_even_def Let_def)
  next
    case False
    with lo hi show ?thesis by (simp add: round_half_even_def Let_def)
  qed
qed

lemma round1_near: "\<bar>round1 x - x\<bar> \<le> 1 / 20"
proof -
  have "\<bar>round1 x - x\<bar> = \<bar>of_int (round_half_even (x * 10)) - x * 10\<bar> / 10"
    by (simp add: round1_def abs_if field_simps)
  also have "\<dots> \<le> (1 / 2) / 10"
    by (rule divide_right_mono [OF round_half_even_near]) simp
  finally show ?thesis by simp
qed

text \<open>
  The value that \<open>clean_data\<close> stores into the missing cells of a subject column that holds
  at least one grade: the float64 mean of the grades of the raw column, rounded to one
  decimal.
\<close>

lemma imputation_value:
  assumes "raw_data st = Some r" and "clean_data lib st = (Inr (Some r'), st')"
    and "c \<in> set grade_columns" and "get_col (heap st r) c = Some (NumCol xs)"
    and "present xs \<noteq> []"
  shows "\<exists>ys. get_col (heap st' r') c = Some (NumCol ys) \<and> length ys = length xs \<and>
     (\<forall>i<length xs. xs ! i = None \<longrightarrow> ys ! i = Some (round1 (series_fmean lib (present xs)))) \<and>
     one_decimal (round1 (series_fmean lib (present xs))) \<and>
     \<bar>round1 (series_fmean lib (present xs)) - series_fmean lib (present xs)\<bar> \<le> 1 / 20"
proof -
  from assms(4) have "has_col (heap st r) c" by (simp add: has_col_get_col)
  from clean_data_subject [OF assms(1,2,3) this] assms(4)
  have ys: "get_col (heap st' r') c = Some (NumCol (map (map_option round1) (map (fill_cell (mean_opt (series_fmean lib) xs)) xs)))"
    by auto
  from assms(5) have m: "mean_opt (series_fmean lib) xs = Some (series_fmean lib (present xs))"
    by (simp add: mean_opt_def Let_def)
  have "\<forall>i<length xs. xs ! i = None \<longrightarrow>
      map (map_option round1) (map (fill_cell (mean_opt (series_fmean lib) xs)) xs) ! i =
      Some (round1 (series_fmean lib (present xs)))"
    by (simp add: fill_cell_def m)
  with ys one_decimal_round1 [of "series_fmean lib (present xs)"]
    round1_near [of "series_fmean lib (present xs)"]
  show ?thesis
    by (intro exI [of _ "map (map_option round1) (map (fill_cell (mean_opt (series_fmean lib) xs)) xs)"] conjI)
       simp_all
qed

text \<open>
  Two runs of the scenario: the grades 80 and 100 give the imputed grade 90.0; the grades
  84.6 and 95.3, whose float64 mean is below their exact mean 89.95, give 89.9.
\<close>

lemma scenario_imputed:
  "get_col (heap scenario_cleaned 1) ''Math'' = Some (NumCol [Some 80, Some 90, Some 100])"
  by code_simp

lemma near_tie_imputed:
  "fl_mean [fl64 (846 / 10), fl64 (953 / 10)] < 8995 / 100 \<and>
   get_col (heap near_tie_cleaned 1) ''Math'' =
     Some (NumCol [Some (846 / 10), Some (899 / 10), Some (953 / 10)])"
  by code_simp

subsection \<open>The transformer applied to its own output\<close>

lemma set_col_same: "get_col df c = Some v \<Longrightarrow> set_col df c v = df"
  by (simp add: get_col_def set_col_def assign_same)

lemma select_numeric_cong:
  "\<forall>c\<in>set cs. get_col df' c = get_col df c \<Longrightarrow> select_numeric df' cs = select_numeric df cs"
  by (induction cs) (auto split: option.splits column.splits sum.splits)

lemma grade_not_derived: "c \<in> set grade_columns \<Longrightarrow> c \<notin> set derived_columns"
  by (auto simp: grade_columns_def derived_columns_def)

lemma transform_frame_other:
  assumes "transform_frame lib df = Inr (Some df')" and "c \<notin> set derived_columns"
  shows "get_col df' c = get_col df c"
proof -
  from transform_frame_result [OF assms(1)] obtain sel where
    df': "df' = set_col (set_col (set_col (set_col (set_col df
       ''overall_average'' (NumCol (row_means lib (nrows df) sel)))
       ''letter_grade'' (TextCol (map (\<lambda>s. Some (get_letter_grade s)) (row_means lib (nrows df) sel))))
       ''performance'' (TextCol (map (\<lambda>s. Some (get_performance_category s)) (row_means lib (nrows df) sel))))
       ''best_subject'' (TextCol (idxmax (nrows df) sel)))
       ''worst_subject'' (TextCol (idxmin (nrows df) sel))" by blast
  from assms(2) show ?thesis
    unfolding df' by (auto simp: get_col_set_col derived_columns_def)
qed

lemma transform_frame_has_derived:
  assumes "transform_frame lib df = Inr (Some df')" and "c \<in> set derived_columns"
  shows "has_col df' c"
proof -
  from transform_frame_result [OF assms(1)] obtain sel where
    df': "df' = set_col (set_col (set_col (set_col (set_col df
       ''overall_average'' (NumCol (row_means lib (nrows df) sel)))
       ''letter_grade'' (TextCol (map (\<lambda>s. Some (get_letter_grade s)) (row_means lib (nrows df) sel))))
       ''performance'' (TextCol (map (\<lambda>s. Some (get_performance_category s)) (row_means lib (nrows df) sel))))
       ''best_subject'' (TextCol (idxmax (nrows df) sel)))
       ''worst_subject'' (TextCol (idxmin (nrows df) sel))" by blast
  from assms(2) show ?thesis
    unfolding df' by (auto simp: has_col_set_col derived_columns_def)
qed

lemma transform_frame_existing:
  assumes "transform_frame lib df = Inr (Some df')"
  shows "existing_grade_columns df' = existing_grade_columns df"
proof -
  have "\<forall>c\<in>set grade_columns. has_col df' c = has_col df c"
    using transform_frame_other [OF assms] by (simp add: has_col_get_col grade_not_derived)
  then show ?thesis
    unfolding existing_grade_columns_def by (auto intro: filter_cong)
qed

lemma transform_frame_select:
  assumes "transform_frame lib df = Inr (Some df')"
  shows "select_numeric df' (existing_grade_columns df') = select_numeric df (existing_grade_columns df)"
proof -
  have "\<forall>c\<in>set (existing_grade_columns df). get_col df' c = get_col df c"
    using transform_frame_other [OF assms] by (simp add: existing_grade_columns_def grade_not_derived)
  then show ?thesis
    unfolding transform_frame_existing [OF assms] by (rule select_numeric_cong)
qed

lemma transform_frame_idem:
  assumes "transform_frame lib df = Inr (Some df')"
  shows "transform_frame lib df' = Inr (Some df')"
proof -
  from transform_frame_result [OF assms] obtain sel where
    ne: "existing_grade_columns df \<noteq> []" and
    sel: "select_numeric df (existing_grade_columns df) = Inr sel" and
    df': "df' = set_col (set_col (set_col (set_col (set_col df
       ''overall_average'' (NumCol (row_means lib (nrows df) sel)))
       ''letter_grade'' (TextCol (map (\<lambda>s. Some (get_letter_grade s)) (row_means lib (nrows df) sel))))
       ''performance'' (TextCol (map (\<lambda>s. Some (get_performance_category s)) (row_means lib (nrows df) sel))))
       ''best_subject'' (TextCol (idxmax (nrows df) sel)))
       ''worst_subject'' (TextCol (idxmin (nrows df) sel))" by blast
  have n: "nrows df' = nrows df" by (simp add: df' nrows_set_col)
  have g1: "get_col df' ''overall_average'' = Some (NumCol (row_means lib (nrows df) sel))"
    and g2: "get_col df' ''letter_grade'' = Some (TextCol (map (\<lambda>s. Some (get_letter_grade s)) (row_means lib (nrows df) sel)))"
    and g3: "get_col df' ''performance'' = Some (TextCol (map (\<lambda>s. Some (get_performance_category s)) (row_means lib (nrows df) sel)))"
    and g4: "get_col df' ''best_subject'' = Some (TextCol (idxmax (nrows df) sel))"
    and g5: "get_col df' ''worst_subject'' = Some (TextCol (idxmin (nrows df) sel))"
    by (simp_all add: df' get_col_set_col)
  have "transform_frame lib df' =
     Inr (Some (set_col (set_col (set_col (set_col (set_col df'
       ''overall_average'' (NumCol (row_means lib (nrows df) sel)))
       ''letter_grade'' (TextCol (map (\<lambda>s. Some (get_letter_grade s)) (row_means lib (nrows df) sel))))
       ''performance'' (TextCol (map (\<lambda>s. Some (get_performance_category s)) (row_means lib (nrows df) sel))))
       ''best_subject'' (TextCol (idxmax (nrows df) sel)))
       ''worst_subject'' (TextCol (idxmin (nrows df) sel))))"
    using ne sel
    by (simp add: transform_frame_def [of lib df'] Let_def transform_frame_existing [OF assms]
        transform_frame_select [OF assms, unfolded transform_frame_existing [OF assms]] n)
  then show ?thesis
    by (simp add: set_col_same g1 g2 g3 g4 g5)
qed

subsection \<open>Counting and the aggregator\<close>

lemma sum_list_insort_key:
  "sum_list (map g (insort_key f x xs)) = (g x :: nat) + sum_list (map g xs)"
  by (induction xs) auto

lemma sum_list_sort_key: "sum_list (map g (sort_key f xs)) = (sum_list (map g xs) :: nat)"
  by (induction xs) (auto simp: sum_list_insort_key)

lemma value_counts_sum:
  "sum_list (map snd (value_counts col)) = length (present (col_cells col))"
proof -
  let ?vs = "present (col_cells col)"
  let ?ks = "rev (remdups (rev ?vs))"
  have d: "distinct ?ks" and s: "set ?ks = set ?vs" by simp_all
  have "sum_list (map snd (value_counts col)) = sum_list (map (count_list ?vs) ?ks)"
    by (simp add: value_counts_def Let_def sum_list_sort_key o_def)
  also have "\<dots> = sum (count_list ?vs) (set ?ks)"
    by (rule sum_list_distinct_conv_sum_set [OF d])
  also have "\<dots> = length ?vs"
    unfolding s by (rule sum_count_set) simp_all
  finally show ?thesis .
qed

lemma present_all_some: "present (map (\<lambda>x. Some (g x)) xs) = map g xs"
  by (induction xs) auto

lemma distinct_map_insort_key:
  "distinct (map g (insort_key f x xs)) \<longleftrightarrow> g x \<notin> g ` set xs \<and> distinct (map g xs)"
  by (induction xs) (auto simp: set_insort_key)

lemma distinct_map_sort_key: "distinct (map g (sort_key f xs)) \<longleftrightarrow> distinct (map g xs)"
  by (induction xs) (auto simp: distinct_map_insort_key)

lemma value_counts_distinct: "distinct (map fst (value_counts col))"
  by (simp add: value_counts_def Let_def distinct_map_sort_key o_def)

lemma value_counts_entry:
  assumes "(k, n) \<in> set (value_counts col)"
  shows "n = count_list (present (col_cells col)) k \<and> 0 < n"
proof -
  from assms have "k \<in> set (present (col_cells col))"
    and n: "n = count_list (present (col_cells col)) k"
    by (auto simp: value_counts_def Let_def)
  then have "count_list (present (col_cells col)) k \<noteq> 0"
    by (simp add: count_list_0_iff)
  with n show ?thesis by simp
qed

text \<open>
  On a selection of numeric columns the loop over the subjects ends normally or with the
  \<open>AttributeError\<close> of a column without any value.
\<close>

lemma subject_loop_numeric:
  "select_numeric df cs = Inr sel \<Longrightarrow>
   fst (subject_loop lib df cs acc) = None \<or> fst (subject_loop lib df cs acc) = Some AttributeError"
  by (induction cs arbitrary: sel acc)
     (auto simp: col_mean_def split: option.splits column.splits sum.splits)

lemma stats_of_numeric:
  assumes "get_col df ''overall_average'' = Some (NumCol avg)"
  shows "stats_of lib df = Inl AttributeError \<or>
     (\<exists>bs. stats_of lib df = Inr bs \<and> total_students bs = nrows df)"
  using assms by (auto simp: stats_of_def split: option.splits)

lemma analyze_frame_error:
  "stats_of lib df = Inl e \<Longrightarrow> fst (analyze_frame lib df res0) = Some e"
  "fst (subject_loop lib df (existing_grade_columns df) []) = Some e \<Longrightarrow>
   stats_of lib df = Inr bs \<Longrightarrow> fst (analyze_frame lib df res0) = Some e"
  by (auto simp: analyze_frame_def Let_def split: prod.splits)

lemma analyze_frame_distribution:
  assumes "stats_of lib df = Inr bs"
    and "fst (subject_loop lib df (existing_grade_columns df) []) = None"
    and "get_col df ''letter_grade'' = Some lg"
  shows "grade_distribution (snd (analyze_frame lib df res0)) = Some (value_counts lg) \<and>
     basic_stats_of (snd (analyze_frame lib df res0)) = Some bs"
proof -
  obtain e sa where sl: "subject_loop lib df (existing_grade_columns df) [] = (e, sa)"
    by (cases "subject_loop lib df (existing_grade_columns df) []")
  with assms(2) have e: "e = None" by simp
  show ?thesis
    by (simp add: analyze_frame_def Let_def assms(1,3) sl e split: sum.splits)
qed

text \<open>
  On the file whose Math column has no grade, \<open>analyze_data\<close> ends with that error at the
  subject \<open>Math\<close>: the basic statistics and an empty dictionary of subject averages are
  stored, a grade distribution is not.
\<close>

lemma analyze_empty_subject_column:
  "fst (analyze_data binary64
      (snd (transform_data binary64 (snd (clean_data binary64 empty_math_loaded))))) =
     Inl AttributeError \<and>
   subject_averages (results (snd (analyze_data binary64
      (snd (transform_data binary64 (snd (clean_data binary64 empty_math_loaded))))))) = Some [] \<and>
   grade_distribution (results (snd (analyze_data binary64
      (snd (transform_data binary64 (snd (clean_data binary64 empty_math_loaded))))))) = None"
  by code_simp

subsection \<open>Averages that are NaN, and the guard on the gender column\<close>

lemma nan_average_labels:
  "get_letter_grade None = ''F''" "get_performance_category None = ''Needs Improvement''"
  by (simp_all add: get_letter_grade_def get_performance_category_def ge_float_def)

lemma analyze_frame_without_gender:
  assumes "\<not> has_col df ''gender''" and "analyze_frame lib df res0 = (None, res)"
  shows "gender_performance res = Some []"
  using assms
  by (auto simp: analyze_frame_def Let_def split: sum.splits prod.splits option.splits)

section \<open>The claims\<close>

subsection \<open>C1: a dataset without subject columns\<close>

text \<open>
  C1, as the code has it: for every raw dataset that holds none of the subject columns
  Math, Science, English, History and Art, \<open>clean_data\<close> raises nothing and returns the
  cleaned dataset, whose columns are those of the input; \<open>transform_data\<close> on the result
  returns \<open>None\<close>, raises nothing, and leaves the analyzer and its data frames as they
  were, so that no derived column is added.
\<close>

theorem no_subject_columns:
  assumes "raw_data st = Some r" and "existing_grade_columns (heap st r) = []"
  shows "\<exists>r' st1. clean_data lib st = (Inr (Some r'), st1) \<and> cleaned_data st1 = Some r' \<and>
     map fst (cols (heap st1 r')) = map fst (cols (heap st r)) \<and>
     transform_data lib st1 = (Inr None, st1)"
proof -
  let ?df = "standardize_grade_level (clean_text (float_repr lib) text_columns (heap st r))"
  have cf: "clean_frame lib (heap st r) = (None, ?df)"
    by (rule clean_frame_no_subjects [OF assms(2)])
  have names: "map fst (cols ?df) = map fst (cols (heap st r))"
    by (simp add: standardize_names clean_text_names)
  have ex: "existing_grade_columns ?df = []"
    using existing_names_cong [OF names] assms(2) by simp
  define st1 where "st1 = snd (clean_data lib st)"
  have cd: "clean_data lib st = (Inr (Some (next_ref st)), st1)"
    by (simp add: st1_def clean_data_def alloc_def assms(1) cf)
  have h1: "cleaned_data st1 = Some (next_ref st)" and h2: "heap st1 (next_ref st) = ?df"
    by (simp_all add: st1_def clean_data_def alloc_def assms(1) cf)
  have "transform_data lib st1 = (Inr None, st1)"
    by (simp add: transform_data_def h1 h2 transform_frame_def ex)
  with cd h1 h2 names show ?thesis by auto
qed

theorem no_subject_columns_witness:
  "raw_data no_subject_loaded = Some 0 \<and> existing_grade_columns (heap no_subject_loaded 0) = [] \<and>
   (\<exists>r' st1. clean_data binary64 no_subject_loaded = (Inr (Some r'), st1) \<and> cleaned_data st1 = Some r' \<and>
     map fst (cols (heap st1 r')) = map fst (cols (heap no_subject_loaded 0)) \<and>
     transform_data binary64 st1 = (Inr None, st1))"
proof -
  have h1: "raw_data no_subject_loaded = Some 0" by code_simp
  have h2: "existing_grade_columns (heap no_subject_loaded 0) = []" by code_simp
  from no_subject_columns [OF h1 h2, of binary64] h1 h2 show ?thesis by blast
qed

text \<open>
  The claim as stated asks the cleaner for an error. On a file with the two columns
  \<open>student_id\<close> and \<open>name\<close> the cleaner returns the reference of the cleaned frame.
\<close>

theorem clean_without_subjects_counterexample:
  "existing_grade_columns (heap no_subject_loaded 0) = [] \<and>
   raw_data no_subject_loaded = Some 0 \<and>
   fst (clean_data binary64 no_subject_loaded) = Inr (Some 1) \<and>
   \<not> isl (fst (clean_data binary64 no_subject_loaded))"
  by code_simp

subsection \<open>C6: letter grades\<close>

text \<open>
  C6: in every transformed dataset the column \<open>letter_grade\<close> is \<open>get_letter_grade\<close>
  applied to each cell of \<open>overall_average\<close>, and the letter grade of an average is \<open>A\<close>
  from 90 on, \<open>B\<close> from 80 on, \<open>C\<close> from 70 on, \<open>D\<close> from 60 on and \<open>F\<close> below 60,
  each lower bound included; so 90.0 gives \<open>A\<close>, 89.9 and 80.0 give \<open>B\<close>, 69.9 gives \<open>D\<close>
  and 59.9 gives \<open>F\<close>. (An average that is NaN fails every comparison and gets \<open>F\<close>:
  \<open>nan_average_labels\<close>.)
\<close>

theorem letter_grade_thresholds:
  "(transform_data lib st = (Inr (Some r), st') \<longrightarrow>
     (\<exists>avg. get_col (heap st' r) ''overall_average'' = Some (NumCol avg) \<and>
        get_col (heap st' r) ''letter_grade'' = Some (TextCol (map (\<lambda>s. Some (get_letter_grade s)) avg)))) \<and>
   (get_letter_grade (Some a) = ''A'' \<longleftrightarrow> 90 \<le> a) \<and>
   (get_letter_grade (Some a) = ''B'' \<longleftrightarrow> 80 \<le> a \<and> a < 90) \<and>
   (get_letter_grade (Some a) = ''C'' \<longleftrightarrow> 70 \<le> a \<and> a < 80) \<and>
   (get_letter_grade (Some a) = ''D'' \<longleftrightarrow> 60 \<le> a \<and> a < 70) \<and>
   (get_letter_grade (Some a) = ''F'' \<longleftrightarrow> a < 60) \<and>
   get_letter_grade (Some 90) = ''A'' \<and>
   get_letter_grade (Some (899 / 10)) = ''B'' \<and>
   get_letter_grade (Some 80) = ''B'' \<and>
   get_letter_grade (Some (699 / 10)) = ''D'' \<and>
   get_letter_grade (Some (599 / 10)) = ''F''"
proof -
  have "transform_data lib st = (Inr (Some r), st') \<longrightarrow>
     (\<exists>avg. get_col (heap st' r) ''overall_average'' = Some (NumCol avg) \<and>
        get_col (heap st' r) ''letter_grade'' = Some (TextCol (map (\<lambda>s. Some (get_letter_grade s)) avg)))"
    using transform_frame_derived transform_data_result by blast
  then show ?thesis
    by (simp add: get_letter_grade_def ge_float_def)
qed

theorem letter_grade_thresholds_witness:
  "transform_data binary64 sample_cleaned = (Inr (Some 1), sample_transformed) \<and>
   get_col (heap sample_transformed 1) ''overall_average'' =
     Some (NumCol [Some (804 / 10), Some (686 / 10), Some (995 / 10), Some (831 / 10)]) \<and>
   get_col (heap sample_transformed 1) ''letter_grade'' =
     Some (TextCol [Some ''B'', Some ''D'', Some ''A'', Some ''B'']) \<and>
   get_letter_grade (Some (804 / 10)) = ''B'' \<and> get_letter_grade (Some (686 / 10)) = ''D'' \<and>
   get_letter_grade (Some (995 / 10)) = ''A''"
proof -
  have avg: "get_col (heap sample_transformed 1) ''overall_average'' =
     Some (NumCol [Some (804 / 10), Some (686 / 10), Some (995 / 10), Some (831 / 10)])"
    by code_simp
  have g: "get_letter_grade (Some (831 / 10)) = ''B''" by code_simp
  from letter_grade_thresholds [of binary64 sample_cleaned 1 sample_transformed "804 / 10"]
    letter_grade_thresholds [of binary64 sample_cleaned 1 sample_transformed "686 / 10"]
    letter_grade_thresholds [of binary64 sample_cleaned 1 sample_transformed "995 / 10"]
    sample_transform_ok avg g
  show ?thesis by simp
qed

subsection \<open>C7: performance categories\<close>

text \<open>
  C7: in every transformed dataset the column \<open>performance\<close> is
  \<open>get_performance_category\<close> applied to each cell of \<open>overall_average\<close>, and the category
  of an average is \<open>Excellent\<close> from 85 on, \<open>Good\<close> from 75 on, \<open>Average\<close> from 65 on and
  \<open>Needs Improvement\<close> below 65, each lower bound included; so 85.0 gives \<open>Excellent\<close>,
  84.9 and 75.0 give \<open>Good\<close> and 64.9 gives \<open>Needs Improvement\<close>. (An average that is
  NaN fails every comparison and gets \<open>Needs Improvement\<close>: \<open>nan_average_labels\<close>.)
\<close>

theorem performance_thresholds:
  "(transform_data lib st = (Inr (Some r), st') \<longrightarrow>
     (\<exists>avg. get_col (heap st' r) ''overall_average'' = Some (NumCol avg) \<and>
        get_col (heap st' r) ''performance'' = Some (TextCol (map (\<lambda>s. Some (get_performance_category s)) avg)))) \<and>
   (get_performance_category (Some a) = ''Excellent'' \<longleftrightarrow> 85 \<le> a) \<and>
   (get_performance_category (Some a) = ''Good'' \<longleftrightarrow> 75 \<le> a \<and> a < 85) \<and>
   (get_performance_category (Some a) = ''Average'' \<longleftrightarrow> 65 \<le> a \<and> a < 75) \<and>
   (get_performance_category (Some a) = ''Needs Improvement'' \<longleftrightarrow> a < 65) \<and>
   get_performance_category (Some 85) = ''Excellent'' \<and>
   get_performance_category (Some (849 / 10)) = ''Good'' \<and>
   get_performance_category (Some 75) = ''Good'' \<and>
   get_performance_category (Some (649 / 10)) = ''Needs Improvement''"
proof -
  have "transform_data lib st = (Inr (Some r), st') \<longrightarrow>
     (\<exists>avg. get_col (heap st' r) ''overall_average'' = Some (NumCol avg) \<and>
        get_col (heap st' r) ''performance'' = Some (TextCol (map (\<lambda>s. Some (get_performance_category s)) avg)))"
    using transform_frame_derived transform_data_result by blast
  then show ?thesis
    by (simp add: get_performance_category_def ge_float_def)
qed

theorem performance_thresholds_witness:
  "transform_data binary64 sample_cleaned = (Inr (Some 1), sample_transformed) \<and>
   get_col (heap sample_transformed 1) ''overall_average'' =
     Some (NumCol [Some (804 / 10), Some (686 / 10), Some (995 / 10), Some (831 / 10)]) \<and>
   get_col (heap sample_transformed 1) ''performance'' =
     Some (TextCol [Some ''Good'', Some ''Average'', Some ''Excellent'', Some ''Good'']) \<and>
   get_performance_category (Some (804 / 10)) = ''Good'' \<and>
   get_performance_category (Some (686 / 10)) = ''Average'' \<and>
   get_performance_category (Some (995 / 10)) = ''Excellent''"
proof -
  have avg: "get_col (heap sample_transformed 1) ''overall_average'' =
     Some (NumCol [Some (804 / 10), Some (686 / 10), Some (995 / 10), Some (831 / 10)])"
    by code_simp
  have g: "get_performance_category (Some (831 / 10)) = ''Good''" by code_simp
  from performance_thresholds [of binary64 sample_cleaned 1 sample_transformed "804 / 10"]
    performance_thresholds [of binary64 sample_cleaned 1 sample_transformed "686 / 10"]
    performance_thresholds [of binary64 sample_cleaned 1 sample_transformed "995 / 10"]
    sample_transform_ok avg g
  show ?thesis by simp
qed

subsection \<open>C2: grouping by an absent column\<close>

text \<open>
  C2 at a transformed dataset with the columns \<open>student_id\<close>, \<open>gender\<close> and \<open>Math\<close>
  and no column \<open>grade_level\<close>: \<open>analyze_data\<close> groups by \<open>grade_level\<close> without the
  test that guards the grouping by \<open>gender\<close>, and raises \<open>KeyError\<close> where the claim
  has an empty map. (For an absent \<open>gender\<close> column the guard is there and the map is
  empty: \<open>analyze_frame_without_gender\<close>.)
\<close>

theorem analyze_without_grade_level:
  "has_col (heap no_level_transformed 1) ''gender'' \<and>
   \<not> has_col (heap no_level_transformed 1) ''grade_level'' \<and>
   get_col (heap no_level_transformed 1) ''overall_average'' = Some (NumCol [Some 100, Some 60]) \<and>
   fst (analyze_data binary64 no_level_transformed) = Inl (KeyError ''grade_level'')"
  by code_simp

subsection \<open>C3: a subject column without any grade\<close>

text \<open>
  C3 at a raw dataset whose \<open>Math\<close> column holds no grade: the mean of the column is NaN,
  filling with NaN fills nothing, and after \<open>clean_data\<close> both cells are still missing.
  (A column that holds at least one grade is left without a missing cell:
  \<open>clean_leaves_no_missing\<close>.)
\<close>

theorem clean_keeps_empty_column_missing:
  "raw_data empty_math_loaded = Some 0 \<and>
   get_col (heap empty_math_loaded 0) ''Math'' = Some (NumCol [None, None]) \<and>
   fst (clean_data binary64 empty_math_loaded) = Inr (Some 1) \<and>
   get_col (heap (snd (clean_data binary64 empty_math_loaded)) 1) ''Math'' = Some (NumCol [None, None])"
  by code_simp

subsection \<open>C5: the imputed value\<close>


subsection \<open>C10: every score is rounded\<close>



subsection \<open>C9: transforming twice\<close>

text \<open>
  C9: when \<open>transform_data\<close> has returned a dataset, a second call returns the same
  dataset and changes nothing: the five derived columns \<open>overall_average\<close>,
  \<open>letter_grade\<close>, \<open>performance\<close>, \<open>best_subject\<close> and \<open>worst_subject\<close> are as the first
  call left them (and so is the rest of the analyzer).
\<close>

theorem transform_twice:
  assumes "transform_data lib st = (Inr (Some r), st1)"
  shows "\<exists>st2. transform_data lib st1 = (Inr (Some r), st2) \<and>
     (\<forall>c\<in>set derived_columns. get_col (heap st2 r) c = get_col (heap st1 r) c) \<and> st2 = st1"
proof -
  from transform_data_result [OF assms] have c: "cleaned_data st1 = Some r"
    and t: "transform_frame lib (heap st r) = Inr (Some (heap st1 r))" by auto
  have "transform_data lib st1 = (Inr (Some r), st1)"
    by (simp add: transform_data_def c transform_frame_idem [OF t])
  then show ?thesis by simp
qed

theorem transform_twice_witness:
  "transform_data binary64 sample_cleaned = (Inr (Some 1), sample_transformed) \<and>
   transform_data binary64 sample_transformed = (Inr (Some 1), sample_transformed) \<and>
   ''letter_grade'' \<in> set derived_columns \<and>
   get_col (heap sample_transformed 1) ''letter_grade'' =
     Some (TextCol [Some ''B'', Some ''D'', Some ''A'', Some ''B''])"
proof -
  have d: "''letter_grade'' \<in> set derived_columns" by code_simp
  have g: "get_col (heap sample_transformed 1) ''letter_grade'' =
     Some (TextCol [Some ''B'', Some ''D'', Some ''A'', Some ''B''])"
    by code_simp
  from transform_twice [OF sample_transform_ok] sample_transform_ok d g
  show ?thesis by blast
qed

subsection \<open>C4: which stage builds a new dataset\<close>

text \<open>
  C4, as the code has it: \<open>clean_data\<close> builds a new dataset (a copy of the raw one) and
  leaves the raw dataset as it was; \<open>transform_data\<close> builds no dataset: it returns the very
  object that \<open>clean_data\<close> returned, with the five derived columns stored into it. The
  row count and every column other than the five derived ones are as \<open>clean_data\<close> left
  them, and the raw dataset is untouched by both stages.
\<close>

theorem stages_and_their_inputs:
  assumes "raw_data st = Some r" and "r < next_ref st"
    and "clean_data lib st = (Inr (Some r1), st1)"
    and "transform_data lib st1 = (Inr (Some r2), st2)"
  shows "r1 \<noteq> r \<and> heap st1 r = heap st r \<and> heap st2 r = heap st r \<and>
     r2 = r1 \<and> next_ref st2 = next_ref st1 \<and>
     nrows (heap st2 r1) = nrows (heap st1 r1) \<and>
     (\<forall>c. c \<notin> set derived_columns \<longrightarrow> get_col (heap st2 r1) c = get_col (heap st1 r1) c) \<and>
     (\<forall>c\<in>set derived_columns. has_col (heap st2 r1) c)"
proof -
  from clean_data_result [OF assms(1,3)] have r1: "r1 = next_ref st"
    and c1: "cleaned_data st1 = Some r1" and h1: "\<forall>q. q \<noteq> r1 \<longrightarrow> heap st1 q = heap st q" by auto
  from transform_data_result [OF assms(4)] have c2: "cleaned_data st1 = Some r2"
    and t: "transform_frame lib (heap st1 r2) = Inr (Some (heap st2 r2))"
    and n2: "next_ref st2 = next_ref st1"
    and h2: "\<forall>q. q \<noteq> r2 \<longrightarrow> heap st2 q = heap st1 q" by auto
  from c1 c2 have eq: "r2 = r1" by simp
  from r1 assms(2) have ne: "r1 \<noteq> r" by simp
  from transform_frame_derived [OF t] have "nrows (heap st2 r2) = nrows (heap st1 r2)" by auto
  with ne eq h1 h2 n2 transform_frame_other [OF t] transform_frame_has_derived [OF t]
  show ?thesis by auto
qed

theorem stages_and_their_inputs_witness:
  "raw_data sample_loaded = Some 0 \<and> 0 < next_ref sample_loaded \<and>
   clean_data binary64 sample_loaded = (Inr (Some 1), sample_cleaned) \<and>
   transform_data binary64 sample_cleaned = (Inr (Some 1), sample_transformed) \<and>
   heap sample_cleaned 0 = heap sample_loaded 0 \<and>
   heap sample_transformed 0 = heap sample_loaded 0 \<and>
   next_ref sample_transformed = next_ref sample_cleaned \<and>
   nrows (heap sample_transformed 1) = nrows (heap sample_cleaned 1) \<and>
   ''Math'' \<notin> set derived_columns \<and>
   get_col (heap sample_transformed 1) ''Math'' = get_col (heap sample_cleaned 1) ''Math'' \<and>
   ''letter_grade'' \<in> set derived_columns \<and>
   has_col (heap sample_transformed 1) ''letter_grade''"
proof -
  have h2: "0 < next_ref sample_loaded" by code_simp
  have d1: "''Math'' \<notin> set derived_columns" by code_simp
  have d2: "''letter_grade'' \<in> set derived_columns" by code_simp
  from stages_and_their_inputs [OF sample_raw_ref h2 sample_clean_ok sample_transform_ok]
    sample_raw_ref h2 sample_clean_ok sample_transform_ok d1 d2
  show ?thesis by blast
qed

text \<open>
  The claim as stated has the dataset that \<open>clean_data\<close> returned unchanged by
  \<open>transform_data\<close>. On the sample file \<open>clean_data\<close> returns the reference 1, and the frame
  behind that reference has no column \<open>overall_average\<close> before \<open>transform_data\<close> and has
  one after it.
\<close>

theorem transform_mutates_cleaned_counterexample:
  "fst (clean_data binary64 sample_loaded) = Inr (Some 1) \<and>
   fst (transform_data binary64 sample_cleaned) = Inr (Some 1) \<and>
   \<not> has_col (heap sample_cleaned 1) ''overall_average'' \<and>
   has_col (heap sample_transformed 1) ''overall_average'' \<and>
   heap sample_transformed 1 \<noteq> heap sample_cleaned 1"
  by code_simp

subsection \<open>C8: the grade distribution\<close>

text \<open>
  C8: for every dataset that \<open>transform_data\<close> returned, the grade distribution that
  \<open>analyze_data\<close> produces has one entry for each letter, the count of an entry is the
  number of records with that letter, and the counts sum to the number of records of the
  dataset, which is the \<open>total_students\<close> stored with it; the results that \<open>analyze_data\<close>
  returns hold the same two entries. A distribution is produced on every run that does not
  end with the \<open>AttributeError\<close> of \<open>mean().round(1)\<close> on a NaN mean (a dataset without
  records, or a subject column without any value): that error is raised before the
  distribution is computed, whereas the \<open>KeyError\<close> of an absent grade level is raised
  after it is stored.
\<close>

theorem grade_distribution_sums_to_total:
  assumes "transform_data lib st = (Inr (Some r), st1)"
    and "fst (analyze_data lib st1) \<noteq> Inl AttributeError"
  shows "\<exists>gd bs avg. grade_distribution (results (snd (analyze_data lib st1))) = Some gd \<and>
     basic_stats_of (results (snd (analyze_data lib st1))) = Some bs \<and>
     get_col (heap st1 r) ''overall_average'' = Some (NumCol avg) \<and>
     distinct (map fst gd) \<and>
     (\<forall>k n. (k, n) \<in> set gd \<longrightarrow>
        0 < n \<and> n = count_list (map (\<lambda>s. S (get_letter_grade s)) avg) k) \<and>
     sum_list (map snd gd) = total_students bs \<and> total_students bs = nrows (heap st1 r) \<and>
     (\<forall>res. fst (analyze_data lib st1) = Inr (Some res) \<longrightarrow>
        grade_distribution res = Some gd \<and> basic_stats_of res = Some bs)"
proof -
  let ?df = "heap st1 r"
  from transform_data_result [OF assms(1)] have c: "cleaned_data st1 = Some r"
    and t: "transform_frame lib (heap st r) = Inr (Some ?df)" by auto
  from transform_frame_result [OF t] obtain sel where
    ne: "existing_grade_columns (heap st r) \<noteq> []" and
    sel: "select_numeric (heap st r) (existing_grade_columns (heap st r)) = Inr sel" by blast
  from transform_frame_derived [OF t] obtain avg where
    len: "length avg = nrows (heap st r)" and n: "nrows ?df = nrows (heap st r)" and
    oa: "get_col ?df ''overall_average'' = Some (NumCol avg)" and
    lg: "get_col ?df ''letter_grade'' = Some (TextCol (map (\<lambda>s. Some (get_letter_grade s)) avg))"
    by blast
  let ?lg = "TextCol (map (\<lambda>s. Some (get_letter_grade s)) avg)"
  have ne': "existing_grade_columns ?df \<noteq> []"
    using ne by (simp add: transform_frame_existing [OF t])
  have run: "analyze_data lib st1 =
     (case analyze_frame lib ?df (results st1) of
        (Some e, res) \<Rightarrow> (Inl e, st1\<lparr>results := res\<rparr>)
      | (None, res) \<Rightarrow> (Inr (Some res), st1\<lparr>results := res\<rparr>))"
    by (simp add: analyze_data_def c ne')
  from assms(2) have noattr: "fst (analyze_frame lib ?df (results st1)) \<noteq> Some AttributeError"
    unfolding run by (auto split: prod.splits option.splits)
  from stats_of_numeric [OF oa, of lib] noattr analyze_frame_error(1) [of lib ?df AttributeError]
  obtain bs where stats: "stats_of lib ?df = Inr bs" and total: "total_students bs = nrows ?df"
    by auto
  have "select_numeric ?df (existing_grade_columns ?df) = Inr sel"
    using sel transform_frame_select [OF t] by simp
  from subject_loop_numeric [OF this, of lib "[]"] noattr
    analyze_frame_error(2) [OF _ stats, of AttributeError]
  have loop: "fst (subject_loop lib ?df (existing_grade_columns ?df) []) = None"
    by auto
  note af = analyze_frame_distribution [OF stats loop lg, of "results st1"]
  have res: "results (snd (analyze_data lib st1)) = snd (analyze_frame lib ?df (results st1))"
    unfolding run by (simp split: prod.splits option.splits)
  have ret: "\<forall>res. fst (analyze_data lib st1) = Inr (Some res) \<longrightarrow>
      res = snd (analyze_frame lib ?df (results st1))"
    unfolding run by (auto split: prod.splits option.splits)
  have cells: "present (col_cells ?lg) = map (\<lambda>s. S (get_letter_grade s)) avg"
    by (simp add: col_cells_def o_def present_all_some)
  then have sum: "sum_list (map snd (value_counts ?lg)) = total_students bs"
    by (simp add: value_counts_sum len n total)
  have entries: "\<forall>k n. (k, n) \<in> set (value_counts ?lg) \<longrightarrow>
      0 < n \<and> n = count_list (map (\<lambda>s. S (get_letter_grade s)) avg) k"
    using value_counts_entry [of _ _ ?lg] unfolding cells by blast
  show ?thesis
    using af res ret sum entries oa total value_counts_distinct [of ?lg]
    by (intro exI [of _ "value_counts ?lg"] exI [of _ bs] exI [of _ avg]) auto
qed

theorem grade_distribution_sums_to_total_witness:
  "transform_data binary64 sample_cleaned = (Inr (Some 1), sample_transformed) \<and>
   fst (analyze_data binary64 sample_transformed) \<noteq> Inl AttributeError \<and>
   nrows (heap sample_transformed 1) = 4 \<and>
   grade_distribution (results (snd (analyze_data binary64 sample_transformed))) =
     Some [(S ''B'', 2), (S ''D'', 1), (S ''A'', 1)] \<and>
   (\<exists>gd bs. grade_distribution (results (snd (analyze_data binary64 sample_transformed))) = Some gd \<and>
     basic_stats_of (results (snd (analyze_data binary64 sample_transformed))) = Some bs \<and>
     distinct (map fst gd) \<and>
     sum_list (map snd gd) = total_students bs \<and> total_students bs = 4)"
proof -
  have h: "fst (analyze_data binary64 sample_transformed) \<noteq> Inl AttributeError" by code_simp
  have n: "nrows (heap sample_transformed 1) = 4" by code_simp
  have g: "grade_distribution (results (snd (analyze_data binary64 sample_transformed))) =
     Some [(S ''B'', 2), (S ''D'', 1), (S ''A'', 1)]" by code_simp
  from grade_distribution_sums_to_total [OF sample_transform_ok h] h n g sample_transform_ok
  show ?thesis by auto
qed

end
